theory Spec2Isabelle
  imports Main "HOL-Library.Sublist" "HOL-Library.AList"
begin

section \<open>Lexical paths (Go's path/filepath on a Unix host)\<close>

text \<open>
  The handlers of \<^verbatim>\<open>main.go\<close> build every file name with \<^verbatim>\<open>filepath.Join\<close>,
  \<^verbatim>\<open>filepath.Dir\<close> and \<^verbatim>\<open>filepath.Base\<close>. These are library functions; they are
  modelled here after their documented behaviour, on slash-separated byte strings.
  A Go string is a byte sequence, and so is an Isabelle \<^typ>\<open>string\<close>.
\<close>

text \<open>The elements of a path: the pieces between slashes (possibly empty).\<close>

fun split_slash :: "string \<Rightarrow> string list" where
  "split_slash [] = [[]]"
| "split_slash (c # cs) =
     (if c = CHR ''/'' then [] # split_slash cs
      else (case split_slash cs of [] \<Rightarrow> [[c]] | e # es \<Rightarrow> (c # e) # es))"

fun join_slash :: "string list \<Rightarrow> string" where
  "join_slash [] = []"
| "join_slash [e] = e"
| "join_slash (e # es) = e @ CHR ''/'' # join_slash es"

text \<open>
  One element read by \<^verbatim>\<open>Clean\<close>, with the elements written so far: an empty element
  and \<^verbatim>\<open>.\<close> are skipped; \<^verbatim>\<open>..\<close> removes the last element written unless there is
  none left to remove, in which case it is dropped on a rooted path and kept on a
  relative one; anything else is written.
\<close>

definition clean_step :: "bool \<Rightarrow> string list \<Rightarrow> string \<Rightarrow> string list" where
  "clean_step rooted out e =
     (if e = [] \<or> e = ''.'' then out
      else if e = ''..'' then
        (if out \<noteq> [] \<and> last out \<noteq> ''..'' then butlast out
         else if rooted then out
         else out @ [''..''])
      else out @ [e])"

definition Clean :: "string \<Rightarrow> string" where
  "Clean path =
     (if path = [] then ''.''
      else
        let rooted = (hd path = CHR ''/'');
            out = join_slash (foldl (clean_step rooted) [] (split_slash path))
        in if rooted then CHR ''/'' # out
           else if out = [] then ''.''
           else out)"

text \<open>
  \<^verbatim>\<open>Join\<close> ignores leading empty elements, joins the rest with slashes and cleans the
  result.
\<close>

fun Join :: "string list \<Rightarrow> string" where
  "Join [] = []"
| "Join (e # es) = (if e \<noteq> [] then Clean (join_slash (e # es)) else Join es)"

text \<open>\<^verbatim>\<open>Dir\<close>: everything up to and including the last slash, cleaned.\<close>

definition Dir :: "string \<Rightarrow> string" where
  "Dir path = Clean (rev (dropWhile (\<lambda>c. c \<noteq> CHR ''/'') (rev path)))"

text \<open>\<^verbatim>\<open>Base\<close>: the last element, after trailing slashes are removed.\<close>

definition Base :: "string \<Rightarrow> string" where
  "Base path =
     (if path = [] then ''.''
      else
        let stripped = rev (dropWhile (\<lambda>c. c = CHR ''/'') (rev path));
            elem = rev (takeWhile (\<lambda>c. c \<noteq> CHR ''/'') (rev stripped))
        in if elem = [] then ''/'' else elem)"

section \<open>Requests and responses\<close>

text \<open>
  A JSON document as \<^verbatim>\<open>encoding/json\<close> writes it: the members of an object in the
  order of the output (the fields of a struct in declaration order, the keys of a map
  sorted). \<open>JTime\<close> is a \<^verbatim>\<open>time.Time\<close>, written as a time stamp.
\<close>

datatype json =
    JNull
  | JBool bool
  | JInt int
  | JString string
  | JTime int
  | JArray "json list"
  | JObject "(string \<times> json) list"

datatype body = Json json | Raw string | Text string

text \<open>
  Of the headers of a response the model keeps those that the handlers or
  \<^verbatim>\<open>http.Error\<close> set; the ones \<^verbatim>\<open>net/http\<close> adds on its own account
  (\<^verbatim>\<open>Date\<close>, \<^verbatim>\<open>Content-Length\<close>, \<^verbatim>\<open>Last-Modified\<close>, \<^verbatim>\<open>Accept-Ranges\<close>) are
  left out.
\<close>

record response =
  status :: int
  headers :: "(string \<times> string) list"
  body :: body

text \<open>
  A request as the handlers read it. Header names stand for their canonical forms.
  \<open>body_path\<close> is what \<^verbatim>\<open>json.NewDecoder(r.Body).Decode\<close> yields for the one-field
  structs \<^verbatim>\<open>ListRequest\<close> and \<^verbatim>\<open>DeleteRequest\<close>: \<open>None\<close> when it returns an error,
  otherwise the value of \<^verbatim>\<open>Path\<close> (empty when the body has no such member, as in
  \<^verbatim>\<open>{}\<close>). \<open>form_file\<close> is what \<^verbatim>\<open>r.FormFile("file")\<close> yields: \<open>None\<close> when it
  returns an error, otherwise the bytes of the part.
\<close>

record request =
  req_method :: string
  url_path :: string
  req_headers :: "(string \<times> string) list"
  body_path :: "string option"
  form_file :: "string option"

definition Header_Get :: "request \<Rightarrow> string \<Rightarrow> string" where
  "Header_Get r key = (case map_of (req_headers r) key of None \<Rightarrow> [] | Some v \<Rightarrow> v)"

definition http_Error :: "string \<Rightarrow> int \<Rightarrow> response" where
  "http_Error msg code =
     \<lparr>status = code,
      headers = [(''Content-Type'', ''text/plain; charset=utf-8''),
                 (''X-Content-Type-Options'', ''nosniff'')],
      body = Text (msg @ [CHR 0x0A])\<rparr>"

section \<open>The file system\<close>

text \<open>
  The handlers act on the host's file system through \<^verbatim>\<open>os.Stat\<close>, \<^verbatim>\<open>os.MkdirAll\<close>,
  \<^verbatim>\<open>os.Create\<close>, \<^verbatim>\<open>io.Copy\<close>, \<^verbatim>\<open>os.Open\<close>, \<^verbatim>\<open>Readdir\<close> and \<^verbatim>\<open>os.RemoveAll\<close>.
  The model is a tree without symbolic links: every node is found under the list of
  names leading to it from the root, the root itself being the empty list and always a
  directory. A relative name is resolved from the working directory of the process.
  Modification times are integers; the time of a directory is the time it was made
  and is not touched when entries are added or removed.
\<close>

datatype errno = ENOENT | ENOTDIR | EISDIR | EACCES | EINVAL | EIO | EBUSY

definition IsNotExist :: "errno \<Rightarrow> bool" where
  "IsNotExist e = (e = ENOENT)"

datatype node = FileNode string int | DirNode int

record world =
  files :: "(string list \<times> node) list"
  cwd :: "string list"

record FileInfo =
  fi_name :: string
  fi_is_dir :: bool
  fi_mod_time :: int

definition walk :: "string list \<Rightarrow> string \<Rightarrow> string list" where
  "walk k e =
     (if e = [] \<or> e = ''.'' then k
      else if e = ''..'' then butlast k
      else k @ [e])"

definition resolve :: "string list \<Rightarrow> string \<Rightarrow> string list" where
  "resolve cw p =
     foldl walk (if p \<noteq> [] \<and> hd p = CHR ''/'' then [] else cw) (split_slash p)"

definition node_at :: "world \<Rightarrow> string list \<Rightarrow> node option" where
  "node_at w k = (if k = [] then Some (DirNode 0) else map_of (files w) k)"

fun is_file :: "node option \<Rightarrow> bool" where
  "is_file (Some (FileNode c t)) = True"
| "is_file _ = False"

text \<open>A missing name is \<^verbatim>\<open>ENOTDIR\<close> when the walk passes through a file, else \<^verbatim>\<open>ENOENT\<close>.\<close>

definition lookup :: "world \<Rightarrow> string list \<Rightarrow> errno + node" where
  "lookup w k =
     (case node_at w k of
        Some n \<Rightarrow> Inr n
      | None \<Rightarrow>
          if list_ex (\<lambda>q. is_file (node_at w q)) (prefixes k) then Inl ENOTDIR
          else Inl ENOENT)"

definition fileinfo :: "string \<Rightarrow> node \<Rightarrow> FileInfo" where
  "fileinfo name n =
     (case n of
        FileNode c t \<Rightarrow> \<lparr>fi_name = name, fi_is_dir = False, fi_mod_time = t\<rparr>
      | DirNode t \<Rightarrow> \<lparr>fi_name = name, fi_is_dir = True, fi_mod_time = t\<rparr>)"

definition put :: "world \<Rightarrow> string list \<Rightarrow> node \<Rightarrow> world" where
  "put w k n = w\<lparr>files := AList.update k n (files w)\<rparr>"

text \<open>
  Besides the errors that follow from the tree (a missing name, a file where a
  directory is needed, a directory where a file is needed), every call can fail for
  reasons outside it: permissions, a full disk, a broken connection. The environment
  of a request says where that happens, by the name passed to the call.
  \<open>copy_fault\<close> gives the number of bytes written before the copy into that file
  fails. \<open>now\<close> is the time stamped on what the request writes.
  \<open>serve_conditional\<close> stands for what \<^verbatim>\<open>http.ServeContent\<close> answers to a range or
  conditional request; it is given the request method, the values of the headers that
  \<^verbatim>\<open>ServeContent\<close> reads, the headers already set, the name, the modification time
  and the content.
\<close>

record env =
  now :: int
  stat_fault :: "string \<Rightarrow> bool"
  mkdir_fault :: "string \<Rightarrow> bool"
  create_fault :: "string \<Rightarrow> bool"
  copy_fault :: "string \<Rightarrow> nat option"
  open_fault :: "string \<Rightarrow> bool"
  readdir_fault :: "string \<Rightarrow> bool"
  remove_fault :: "string \<Rightarrow> bool"
  serve_conditional ::
    "string \<Rightarrow> string list \<Rightarrow> (string \<times> string) list \<Rightarrow> string \<Rightarrow> int \<Rightarrow> string \<Rightarrow>
     response"

definition os_Stat :: "env \<Rightarrow> world \<Rightarrow> string \<Rightarrow> errno + FileInfo" where
  "os_Stat ev w p =
     (if stat_fault ev p then Inl EACCES
      else case lookup w (resolve (cwd w) p) of
             Inl e \<Rightarrow> Inl e
           | Inr n \<Rightarrow> Inr (fileinfo (Base p) n))"

text \<open>
  \<^verbatim>\<open>MkdirAll\<close> creates the missing directories from the top down and stops at a file;
  the directories made before the failure stay.
\<close>

fun mkdirs :: "int \<Rightarrow> string list list \<Rightarrow> world \<Rightarrow> errno option \<times> world" where
  "mkdirs t [] w = (None, w)"
| "mkdirs t (k # ks) w =
     (case node_at w k of
        Some (DirNode t') \<Rightarrow> mkdirs t ks w
      | Some (FileNode c t') \<Rightarrow> (Some ENOTDIR, w)
      | None \<Rightarrow> mkdirs t ks (put w k (DirNode t)))"

definition os_MkdirAll :: "env \<Rightarrow> world \<Rightarrow> string \<Rightarrow> errno option \<times> world" where
  "os_MkdirAll ev w p =
     (if mkdir_fault ev p then (Some EACCES, w)
      else mkdirs (now ev) (tl (prefixes (resolve (cwd w) p))) w)"

text \<open>\<^verbatim>\<open>Create\<close> opens for writing, creating the file or truncating it.\<close>

definition os_Create :: "env \<Rightarrow> world \<Rightarrow> string \<Rightarrow> errno + world" where
  "os_Create ev w p =
     (if create_fault ev p then Inl EACCES
      else
        let k = resolve (cwd w) p in
        case node_at w k of
          Some (DirNode t) \<Rightarrow> Inl EISDIR
        | Some (FileNode c t) \<Rightarrow> Inr (put w k (FileNode [] (now ev)))
        | None \<Rightarrow>
            (case lookup w (butlast k) of
               Inl e \<Rightarrow> Inl e
             | Inr (FileNode c t) \<Rightarrow> Inl ENOTDIR
             | Inr (DirNode t) \<Rightarrow> Inr (put w k (FileNode [] (now ev)))))"

text \<open>
  \<^verbatim>\<open>io.Copy\<close> into the file just created under the name \<open>p\<close>: the whole content, or
  the part written before the failure.
\<close>

definition io_Copy :: "env \<Rightarrow> world \<Rightarrow> string \<Rightarrow> string \<Rightarrow> errno option \<times> world" where
  "io_Copy ev w p content =
     (let k = resolve (cwd w) p in
      case copy_fault ev p of
        Some n \<Rightarrow> (Some EIO, put w k (FileNode (take n content) (now ev)))
      | None \<Rightarrow> (None, put w k (FileNode content (now ev))))"

definition os_Open :: "env \<Rightarrow> world \<Rightarrow> string \<Rightarrow> errno + node" where
  "os_Open ev w p =
     (if open_fault ev p then Inl EACCES
      else lookup w (resolve (cwd w) p))"

text \<open>The entries of a directory, in the order the tree holds them.\<close>

definition children :: "world \<Rightarrow> string list \<Rightarrow> FileInfo list" where
  "children w k = [fileinfo (last q) n. (q, n) \<leftarrow> files w, q \<noteq> [] \<and> butlast q = k]"

definition os_Readdir :: "env \<Rightarrow> world \<Rightarrow> string \<Rightarrow> errno + FileInfo list" where
  "os_Readdir ev w p =
     (if readdir_fault ev p then Inl EIO
      else case lookup w (resolve (cwd w) p) of
             Inl e \<Rightarrow> Inl e
           | Inr (FileNode c t) \<Rightarrow> Inl ENOTDIR
           | Inr (DirNode t) \<Rightarrow> Inr (children w (resolve (cwd w) p)))"

text \<open>
  \<^verbatim>\<open>RemoveAll\<close> removes the node and everything below it. It refuses a name whose
  last element is \<^verbatim>\<open>.\<close>, and a missing name is no error. The root of the tree cannot
  itself be removed. A failure from outside is modelled as removing nothing.
\<close>

definition remove_below :: "string list \<Rightarrow> (string list \<times> node) list \<Rightarrow> (string list \<times> node) list" where
  "remove_below k fs = filter (\<lambda>(q, n). \<not> prefix k q) fs"

definition endsWithDot :: "string \<Rightarrow> bool" where
  "endsWithDot p = (p = ''.'' \<or> take 2 (rev p) = ''./'')"

definition os_RemoveAll :: "env \<Rightarrow> world \<Rightarrow> string \<Rightarrow> errno option \<times> world" where
  "os_RemoveAll ev w p =
     (if p = [] then (None, w)
      else if endsWithDot p then (Some EINVAL, w)
      else if remove_fault ev p then (Some EACCES, w)
      else
        let k = resolve (cwd w) p;
            w' = w\<lparr>files := remove_below k (files w)\<rparr>
        in if k = [] then (Some EBUSY, w') else (None, w'))"

section \<open>The handlers of main.go\<close>

subsection \<open>Message texts\<close>

text \<open>The messages of the responses, as the UTF-8 bytes of the source's literals.\<close>

definition msg_not_found :: string where
  "msg_not_found =
    [CHR 0xE8, CHR 0xB5, CHR 0x84, CHR 0xE6, CHR 0xBA, CHR 0x90, CHR 0xE6, CHR 0x96, CHR 0x87,
     CHR 0xE4, CHR 0xBB, CHR 0xB6, CHR 0xE4, CHR 0xB8, CHR 0x8D, CHR 0xE5, CHR 0xAD, CHR 0x98,
     CHR 0xE5, CHR 0x9C, CHR 0xA8]"

definition msg_server_error :: string where
  "msg_server_error =
    [CHR 0xE6, CHR 0x9C, CHR 0x8D, CHR 0xE5, CHR 0x8A, CHR 0xA1, CHR 0xE5, CHR 0x99, CHR 0xA8,
     CHR 0xE9, CHR 0x94, CHR 0x99, CHR 0xE8, CHR 0xAF, CHR 0xAF, CHR 0xEF, CHR 0xBC, CHR 0x8C,
     CHR 0xE8, CHR 0xAF, CHR 0xB7, CHR 0xE7, CHR 0xA8, CHR 0x8D, CHR 0xE5, CHR 0x90, CHR 0x8E,
     CHR 0xE9, CHR 0x87, CHR 0x8D, CHR 0xE8, CHR 0xAF, CHR 0x95]"

definition msg_missing_store_path :: string where
  "msg_missing_store_path =
    [CHR 0xE7, CHR 0xBC, CHR 0xBA, CHR 0xE5, CHR 0xB0, CHR 0x91, CHR 0xE5, CHR 0xAD, CHR 0x98,
     CHR 0xE5, CHR 0x82, CHR 0xA8, CHR 0xE8, CHR 0xB7, CHR 0xAF, CHR 0xE5, CHR 0xBE, CHR 0x84]"

definition msg_receive_failed :: string where
  "msg_receive_failed =
    [CHR 0xE6, CHR 0x8E, CHR 0xA5, CHR 0xE6, CHR 0x94, CHR 0xB6, CHR 0xE6, CHR 0x96, CHR 0x87,
     CHR 0xE4, CHR 0xBB, CHR 0xB6, CHR 0xE5, CHR 0xA4, CHR 0xB1, CHR 0xE8, CHR 0xB4, CHR 0xA5]"

definition msg_mkdir_failed :: string where
  "msg_mkdir_failed =
    [CHR 0xE5, CHR 0x88, CHR 0x9B, CHR 0xE5, CHR 0xBB, CHR 0xBA, CHR 0xE7, CHR 0x9B, CHR 0xAE,
     CHR 0xE5, CHR 0xBD, CHR 0x95, CHR 0xE5, CHR 0xA4, CHR 0xB1, CHR 0xE8, CHR 0xB4, CHR 0xA5]"

definition msg_create_failed :: string where
  "msg_create_failed =
    [CHR 0xE5, CHR 0x88, CHR 0x9B, CHR 0xE5, CHR 0xBB, CHR 0xBA, CHR 0xE6, CHR 0x96, CHR 0x87,
     CHR 0xE4, CHR 0xBB, CHR 0xB6, CHR 0xE5, CHR 0xA4, CHR 0xB1, CHR 0xE8, CHR 0xB4, CHR 0xA5]"

definition msg_copy_failed :: string where
  "msg_copy_failed =
    [CHR 0xE6, CHR 0x96, CHR 0x87, CHR 0xE4, CHR 0xBB, CHR 0xB6, CHR 0xE5, CHR 0xA4, CHR 0x8D,
     CHR 0xE5, CHR 0x88, CHR 0xB6, CHR 0xE5, CHR 0xA4, CHR 0xB1, CHR 0xE8, CHR 0xB4, CHR 0xA5]"

definition msg_upload_ok :: string where
  "msg_upload_ok =
    [CHR 0xE6, CHR 0x96, CHR 0x87, CHR 0xE4, CHR 0xBB, CHR 0xB6, CHR 0xE4, CHR 0xB8, CHR 0x8A,
     CHR 0xE4, CHR 0xBC, CHR 0xA0, CHR 0xE6, CHR 0x88, CHR 0x90, CHR 0xE5, CHR 0x8A, CHR 0x9F]"

definition msg_missing_params :: string where
  "msg_missing_params =
    [CHR 0xE7, CHR 0xBC, CHR 0xBA, CHR 0xE5, CHR 0xB0, CHR 0x91, CHR 0xE5, CHR 0xBF, CHR 0x85,
     CHR 0xE8, CHR 0xA6, CHR 0x81, CHR 0xE5, CHR 0x8F, CHR 0x82, CHR 0xE6, CHR 0x95, CHR 0xB0]"

definition msg_dir_not_exist :: string where
  "msg_dir_not_exist =
    [CHR 0xE8, CHR 0xAF, CHR 0xA5, CHR 0xE7, CHR 0x9B, CHR 0xAE, CHR 0xE5, CHR 0xBD, CHR 0x95,
     CHR 0xE4, CHR 0xB8, CHR 0x8D, CHR 0xE5, CHR 0xAD, CHR 0x98, CHR 0xE5, CHR 0x9C, CHR 0xA8]"

definition msg_cannot_list :: string where
  "msg_cannot_list =
    [CHR 0xE6, CHR 0x97, CHR 0xA0, CHR 0xE6, CHR 0xB3, CHR 0x95, CHR 0xE5, CHR 0x88, CHR 0x97,
     CHR 0xE5, CHR 0x87, CHR 0xBA, CHR 0xE7, CHR 0x9B, CHR 0xAE, CHR 0xE5, CHR 0xBD, CHR 0x95,
     CHR 0xE5, CHR 0x86, CHR 0x85, CHR 0xE5, CHR 0xAE, CHR 0xB9]"

definition msg_missing_path_param :: string where
  "msg_missing_path_param =
    [CHR 0xE7, CHR 0xBC, CHR 0xBA, CHR 0xE5, CHR 0xB0, CHR 0x91, CHR 0xE8, CHR 0xB7, CHR 0xAF,
     CHR 0xE5, CHR 0xBE, CHR 0x84, CHR 0xE5, CHR 0x8F, CHR 0x82, CHR 0xE6, CHR 0x95, CHR 0xB0]"

definition msg_path_not_exist :: string where
  "msg_path_not_exist =
    [CHR 0xE6, CHR 0x96, CHR 0x87, CHR 0xE4, CHR 0xBB, CHR 0xB6, CHR 0xE6, CHR 0x88, CHR 0x96,
     CHR 0xE7, CHR 0x9B, CHR 0xAE, CHR 0xE5, CHR 0xBD, CHR 0x95, CHR 0xE4, CHR 0xB8, CHR 0x8D,
     CHR 0xE5, CHR 0xAD, CHR 0x98, CHR 0xE5, CHR 0x9C, CHR 0xA8]"

definition msg_cannot_stat :: string where
  "msg_cannot_stat =
    [CHR 0xE6, CHR 0x97, CHR 0xA0, CHR 0xE6, CHR 0xB3, CHR 0x95, CHR 0xE8, CHR 0x8E, CHR 0xB7,
     CHR 0xE5, CHR 0x8F, CHR 0x96, CHR 0xE6, CHR 0x96, CHR 0x87, CHR 0xE4, CHR 0xBB, CHR 0xB6,
     CHR 0xE6, CHR 0x88, CHR 0x96, CHR 0xE7, CHR 0x9B, CHR 0xAE, CHR 0xE5, CHR 0xBD, CHR 0x95,
     CHR 0xE4, CHR 0xBF, CHR 0xA1, CHR 0xE6, CHR 0x81, CHR 0xAF]"

definition msg_delete_failed :: string where
  "msg_delete_failed =
    [CHR 0xE5, CHR 0x88, CHR 0xA0, CHR 0xE9, CHR 0x99, CHR 0xA4, CHR 0xE5, CHR 0xA4, CHR 0xB1,
     CHR 0xE8, CHR 0xB4, CHR 0xA5]"

definition msg_delete_ok :: string where
  "msg_delete_ok =
    [CHR 0xE5, CHR 0x88, CHR 0xA0, CHR 0xE9, CHR 0x99, CHR 0xA4, CHR 0xE6, CHR 0x88, CHR 0x90,
     CHR 0xE5, CHR 0x8A, CHR 0x9F]"

subsection \<open>Response writers\<close>

text \<open>
  \<^verbatim>\<open>sendJSONResponse\<close> encodes a map with the keys \<^verbatim>\<open>status\<close> and \<^verbatim>\<open>message\<close>; the
  encoder writes the keys of a map sorted. Its \<^verbatim>\<open>err\<close> and \<^verbatim>\<open>url\<close> arguments only
  reach the log, which is not modelled.
\<close>

definition sendJSONResponse :: "int \<Rightarrow> string \<Rightarrow> response" where
  "sendJSONResponse statusCode message =
     (if statusCode = 200 then
        \<lparr>status = statusCode,
         headers = [(''Content-Type'', ''application/json'')],
         body = Json (JObject [(''message'', JString message), (''status'', JInt 1)])\<rparr>
      else
        \<lparr>status = statusCode,
         headers = [(''Content-Type'', ''application/json'')],
         body = Json (JObject [(''message'', JString message), (''status'', JInt 0)])\<rparr>)"

record ListEntry =
  Name :: string
  IsDir :: bool
  Date :: int

text \<open>
  A Go slice is \<^verbatim>\<open>nil\<close> or holds a list: \<open>None\<close> is the nil slice, which the encoder
  writes as \<^verbatim>\<open>null\<close>, and \<open>Some []\<close> is the empty slice \<^verbatim>\<open>[]ListEntry{}\<close>, written
  as \<^verbatim>\<open>[]\<close>.
\<close>

record ListResponse =
  Status :: int
  Message :: string
  Content :: "ListEntry list option"

record DeleteResponse =
  DelStatus :: int
  DelMessage :: string

definition append_slice :: "'a list option \<Rightarrow> 'a \<Rightarrow> 'a list option" where
  "append_slice s x = (case s of None \<Rightarrow> Some [x] | Some xs \<Rightarrow> Some (xs @ [x]))"

definition encode_ListEntry :: "ListEntry \<Rightarrow> json" where
  "encode_ListEntry e =
     JObject [(''name'', JString (Name e)), (''is_dir'', JBool (IsDir e)), (''date'', JTime (Date e))]"

definition encode_ListResponse :: "ListResponse \<Rightarrow> json" where
  "encode_ListResponse response =
     JObject
       [(''status'', JInt (Status response)),
        (''message'', JString (Message response)),
        (''content'',
           (case Content response of
              None \<Rightarrow> JNull
            | Some entries \<Rightarrow> JArray (map encode_ListEntry entries)))]"

definition encode_DeleteResponse :: "DeleteResponse \<Rightarrow> json" where
  "encode_DeleteResponse response =
     JObject
       [(''status'', JInt (DelStatus response)), (''message'', JString (DelMessage response))]"

definition sendListResponse :: "int \<Rightarrow> string \<Rightarrow> ListResponse \<Rightarrow> response" where
  "sendListResponse statusCode message response =
     \<lparr>status = statusCode,
      headers = [(''Content-Type'', ''application/json'')],
      body = Json (encode_ListResponse (response\<lparr>Message := message\<rparr>))\<rparr>"

definition sendDeleteResponse :: "int \<Rightarrow> DeleteResponse \<Rightarrow> response" where
  "sendDeleteResponse statusCode response =
     \<lparr>status = statusCode,
      headers = [(''Content-Type'', ''application/json'')],
      body = Json (encode_DeleteResponse response)\<rparr>"

subsection \<open>Download\<close>

text \<open>
  \<^verbatim>\<open>http.ServeContent\<close> answers a request that carries no range and no condition with
  the whole content (and no body for \<^verbatim>\<open>HEAD\<close>); every other request is left to
  \<open>serve_conditional\<close>. The content type is already set by the handler, so the name
  plays no part in the plain answer. The handler passes it the file it opened after
  \<^verbatim>\<open>Stat\<close> found no directory there; reading a directory would fail.
\<close>

definition conditional_headers :: "string list" where
  "conditional_headers =
     [''Range'', ''If-Range'', ''If-Match'', ''If-None-Match'',
      ''If-Modified-Since'', ''If-Unmodified-Since'']"

definition plain_request :: "request \<Rightarrow> bool" where
  "plain_request r =
     (req_method r \<noteq> ''HEAD'' \<and> list_all (\<lambda>h. Header_Get r h = []) conditional_headers)"

definition ServeContent ::
  "env \<Rightarrow> request \<Rightarrow> (string \<times> string) list \<Rightarrow> string \<Rightarrow> int \<Rightarrow> node \<Rightarrow> response" where
  "ServeContent ev r hs name modtime file =
     (case file of
        DirNode t \<Rightarrow> http_Error (''seeker can'' @ [CHR 0x27] @ ''t seek'') 500
      | FileNode content t \<Rightarrow>
          if plain_request r then \<lparr>status = 200, headers = hs, body = Raw content\<rparr>
          else serve_conditional ev (req_method r) (map (Header_Get r) conditional_headers)
                 hs name modtime content)"

text \<open>
  The handler cuts the prefix \<^verbatim>\<open>/get/\<close> off the URL path by slicing; on a path
  shorter than the prefix the slice panics, which is the result \<open>None\<close>.
\<close>

definition get_fullPath :: "string \<Rightarrow> string" where
  "get_fullPath urlPath = Join [''data'', drop (length ''/get/'') urlPath]"

definition getFileHandler :: "env \<Rightarrow> request \<Rightarrow> world \<Rightarrow> response option" where
  "getFileHandler ev r w =
     (if length (url_path r) < length ''/get/'' then None
      else
        let fullPath = get_fullPath (url_path r) in
        Some
          (case os_Stat ev w fullPath of
             Inl err \<Rightarrow>
               if IsNotExist err then sendJSONResponse 404 msg_not_found
               else sendJSONResponse 500 msg_server_error
           | Inr fileInfo \<Rightarrow>
               if fi_is_dir fileInfo then sendJSONResponse 404 msg_not_found
               else
                 (case os_Open ev w fullPath of
                    Inl err \<Rightarrow> sendJSONResponse 500 msg_server_error
                  | Inr file \<Rightarrow>
                      ServeContent ev r
                        [(''Content-Type'', ''application/octet-stream''),
                         (''Content-Disposition'',
                            ''attachment; filename='' @ fi_name fileInfo)]
                        (fi_name fileInfo) (fi_mod_time fileInfo) file)))"

subsection \<open>Upload\<close>

definition uploadHandler :: "env \<Rightarrow> request \<Rightarrow> world \<Rightarrow> response \<times> world" where
  "uploadHandler ev r w =
     (let path = Header_Get r ''X-FormFile-Path'' in
      if path = [] then (sendJSONResponse 400 msg_missing_store_path, w)
      else
        (case form_file r of
           None \<Rightarrow> (sendJSONResponse 400 msg_receive_failed, w)
         | Some file \<Rightarrow>
             (let dir = Dir path;
                  fullPath = Join [''data'', dir];
                  made =
                    (case os_Stat ev w fullPath of
                       Inl err \<Rightarrow>
                         (if IsNotExist err then os_MkdirAll ev w fullPath else (None, w))
                     | Inr info \<Rightarrow> (None, w))
              in
                (case made of
                   (Some err, w1) \<Rightarrow> (sendJSONResponse 500 msg_mkdir_failed, w1)
                 | (None, w1) \<Rightarrow>
                     (let newFilePath = Join [fullPath, Base path] in
                        (case os_Create ev w1 newFilePath of
                           Inl err \<Rightarrow> (sendJSONResponse 500 msg_create_failed, w1)
                         | Inr w2 \<Rightarrow>
                             (case io_Copy ev w2 newFilePath file of
                                (Some err, w3) \<Rightarrow>
                                  (sendJSONResponse 500 msg_copy_failed, w3)
                              | (None, w3) \<Rightarrow>
                                  (sendJSONResponse 200 msg_upload_ok, w3))))))))"

subsection \<open>List\<close>

definition listDirectory :: "env \<Rightarrow> world \<Rightarrow> string \<Rightarrow> errno + ListEntry list option" where
  "listDirectory ev w path =
     (case os_Open ev w path of
        Inl err \<Rightarrow> Inl err
      | Inr dir \<Rightarrow>
          (case os_Readdir ev w path of
             Inl err \<Rightarrow> Inl err
           | Inr fileInfos \<Rightarrow>
               Inr (foldl
                      (\<lambda>entries fileInfo.
                         append_slice entries
                           \<lparr>Name = fi_name fileInfo, IsDir = fi_is_dir fileInfo,
                            Date = fi_mod_time fileInfo\<rparr>)
                      None fileInfos)))"

definition list_fullPath :: "string \<Rightarrow> string" where
  "list_fullPath p = Join [if p = [] then ''data'' else ''data/'' @ p]"

definition listHandler :: "env \<Rightarrow> request \<Rightarrow> world \<Rightarrow> response \<times> world" where
  "listHandler ev r w =
     (case body_path r of
        None \<Rightarrow>
          (sendListResponse 400 msg_missing_params
             \<lparr>Status = 0, Message = [], Content = Some []\<rparr>, w)
      | Some path \<Rightarrow>
          (let fullPath = list_fullPath path in
             (case os_Stat ev w fullPath of
                Inl err \<Rightarrow>
                  (sendListResponse 200 msg_dir_not_exist
                     \<lparr>Status = 0, Message = [], Content = Some []\<rparr>, w)
              | Inr info \<Rightarrow>
                  (case listDirectory ev w fullPath of
                     Inl err \<Rightarrow>
                       (sendListResponse 500 msg_cannot_list
                          \<lparr>Status = 0, Message = [], Content = Some []\<rparr>, w)
                   | Inr entries \<Rightarrow>
                       (sendListResponse 200 ''success''
                          \<lparr>Status = 1, Message = ''success'', Content = entries\<rparr>, w)))))"

subsection \<open>Delete\<close>

definition delete_fullPath :: "string \<Rightarrow> string" where
  "delete_fullPath p = Join [''data'', p]"

definition deleteHandler :: "env \<Rightarrow> request \<Rightarrow> world \<Rightarrow> response \<times> world" where
  "deleteHandler ev r w =
     (case body_path r of
        None \<Rightarrow>
          (sendDeleteResponse 400 \<lparr>DelStatus = 0, DelMessage = msg_missing_params\<rparr>, w)
      | Some path \<Rightarrow>
          (if path = [] then
             (sendDeleteResponse 400
                \<lparr>DelStatus = 0, DelMessage = msg_missing_path_param\<rparr>, w)
           else
             (let fullPath = delete_fullPath path in
                (case os_Stat ev w fullPath of
                   Inl err \<Rightarrow>
                     (if IsNotExist err then
                        (sendDeleteResponse 200
                           \<lparr>DelStatus = 0, DelMessage = msg_path_not_exist\<rparr>, w)
                      else
                        (sendDeleteResponse 500
                           \<lparr>DelStatus = 0, DelMessage = msg_cannot_stat\<rparr>, w))
                 | Inr info \<Rightarrow>
                     (case os_RemoveAll ev w fullPath of
                        (Some err, w1) \<Rightarrow>
                          (sendDeleteResponse 500
                             \<lparr>DelStatus = 0, DelMessage = msg_delete_failed\<rparr>, w1)
                      | (None, w1) \<Rightarrow>
                          (sendDeleteResponse 200
                             \<lparr>DelStatus = 1, DelMessage = msg_delete_ok\<rparr>, w1))))))"

subsection \<open>The token check and the routes of main\<close>

type_synonym handler = "env \<Rightarrow> request \<Rightarrow> world \<Rightarrow> response \<times> world"

definition TokenMiddleware :: "handler \<Rightarrow> string \<Rightarrow> handler" where
  "TokenMiddleware nextHandler validToken =
     (\<lambda>ev r w.
        let token = Header_Get r ''Authorization'' in
        if token \<noteq> validToken then (http_Error ''Invalid token'' 401, w)
        else nextHandler ev r w)"

text \<open>
  The routes that \<^verbatim>\<open>main\<close> registers once the configuration is loaded, with
  \<open>validToken\<close> the token of the configuration: the pattern \<^verbatim>\<open>/get/\<close> takes every
  path below it, the other three take their own path only, and the multiplexer
  answers 404 for the rest. The request is taken as the multiplexer hands it to a
  handler: the redirects that \<^verbatim>\<open>net/http\<close> sends by itself, for a URL path that is
  not in canonical form (unless the method is \<^verbatim>\<open>CONNECT\<close>) and for \<^verbatim>\<open>/get\<close>
  without the slash, are outside the model. A handler that panics sends no response.
\<close>

definition replied :: "response \<times> world \<Rightarrow> response option \<times> world" where
  "replied rw = (Some (fst rw), snd rw)"

definition serve :: "string \<Rightarrow> env \<Rightarrow> request \<Rightarrow> world \<Rightarrow> response option \<times> world" where
  "serve validToken ev r w =
     (if take (length ''/get/'') (url_path r) = ''/get/'' then (getFileHandler ev r w, w)
      else if url_path r = ''/list'' then
        replied (TokenMiddleware listHandler validToken ev r w)
      else if url_path r = ''/upload'' then
        replied (TokenMiddleware uploadHandler validToken ev r w)
      else if url_path r = ''/delete'' then
        replied (TokenMiddleware deleteHandler validToken ev r w)
      else (Some (http_Error ''404 page not found'' 404), w))"

section \<open>Notions used in the statements\<close>

text \<open>The JSON error envelope of \<^verbatim>\<open>sendJSONResponse\<close>: a message and the status 0.\<close>

definition error_envelope :: "int \<Rightarrow> string \<Rightarrow> response" where
  "error_envelope code msg =
     \<lparr>status = code, headers = [(''Content-Type'', ''application/json'')],
      body = Json (JObject [(''message'', JString msg), (''status'', JInt 0)])\<rparr>"

text \<open>
  A request with its \<^verbatim>\<open>Authorization\<close> header taken away. Two requests that become
  equal by this differ at most in that header: in its value, or in having it at all.
\<close>

definition without_authorization :: "request \<Rightarrow> request" where
  "without_authorization r =
     r\<lparr>req_headers := filter (\<lambda>(k, v). k \<noteq> ''Authorization'') (req_headers r)\<rparr>"

text \<open>
  A name that \<^verbatim>\<open>Clean\<close> copies as it is, and a list of such names without slashes:
  the elements of a path in canonical form.
\<close>

definition plain_name :: "string \<Rightarrow> bool" where
  "plain_name e = (e \<noteq> [] \<and> e \<noteq> ''.'' \<and> e \<noteq> ''..'')"

definition path_names :: "string list \<Rightarrow> bool" where
  "path_names ns = (list_all plain_name ns \<and> (\<forall>e\<in>set ns. CHR ''/'' \<notin> set e))"

text \<open>
  A valid relative path names a file by one or more non-empty elements separated by
  single slashes, none of them \<^verbatim>\<open>.\<close>; so it neither starts nor ends with a slash.
  It has no parent-traversal segment when none of its elements is \<^verbatim>\<open>..\<close>.
\<close>

definition valid_rel_path :: "string \<Rightarrow> bool" where
  "valid_rel_path P = list_all (\<lambda>e. e \<noteq> [] \<and> e \<noteq> ''.'') (split_slash P)"

definition no_parent_segments :: "string \<Rightarrow> bool" where
  "no_parent_segments P = (''..'' \<notin> set (split_slash P))"

section \<open>Sample environment, stores and requests\<close>

text \<open>An environment in which no call fails for outside reasons.\<close>

definition env_ok :: env where
  "env_ok =
     \<lparr>now = 7, stat_fault = (\<lambda>p. False), mkdir_fault = (\<lambda>p. False),
      create_fault = (\<lambda>p. False), copy_fault = (\<lambda>p. None), open_fault = (\<lambda>p. False),
      readdir_fault = (\<lambda>p. False), remove_fault = (\<lambda>p. False),
      serve_conditional =
        (\<lambda>m vs hs n t c. \<lparr>status = 206, headers = hs, body = Raw (take 1 c)\<rparr>)\<rparr>"

text \<open>
  The server runs in \<^verbatim>\<open>/srv\<close>. \<open>store_empty\<close> is the state after start-up, with
  the directory \<^verbatim>\<open>data\<close> and nothing in it; \<open>store_one\<close> holds the file
  \<^verbatim>\<open>data/a/b.txt\<close>; \<open>store_uploaded\<close> is what an upload of \<^verbatim>\<open>hello\<close> to that
  name at time 7 makes of the empty store.
\<close>

definition store_empty :: world where
  "store_empty =
     \<lparr>files = [([''srv''], DirNode 1), ([''srv'', ''data''], DirNode 2)],
      cwd = [''srv'']\<rparr>"

definition store_one :: world where
  "store_one =
     \<lparr>files = [([''srv''], DirNode 1), ([''srv'', ''data''], DirNode 2),
               ([''srv'', ''data'', ''a''], DirNode 3),
               ([''srv'', ''data'', ''a'', ''b.txt''], FileNode ''hello'' 4)],
      cwd = [''srv'']\<rparr>"

definition store_uploaded :: world where
  "store_uploaded =
     \<lparr>files = [([''srv''], DirNode 1), ([''srv'', ''data''], DirNode 2),
               ([''srv'', ''data'', ''a''], DirNode 7),
               ([''srv'', ''data'', ''a'', ''b.txt''], FileNode ''hello'' 7)],
      cwd = [''srv'']\<rparr>"

definition req_get :: "string \<Rightarrow> request" where
  "req_get p =
     \<lparr>req_method = ''GET'', url_path = ''/get/'' @ p, req_headers = [],
      body_path = None, form_file = None\<rparr>"

definition req_post :: "string \<Rightarrow> string \<Rightarrow> string option \<Rightarrow> request" where
  "req_post url token p =
     \<lparr>req_method = ''POST'', url_path = url, req_headers = [(''Authorization'', token)],
      body_path = p, form_file = None\<rparr>"

definition req_anon_delete :: request where
  "req_anon_delete =
     \<lparr>req_method = ''POST'', url_path = ''/delete'', req_headers = [],
      body_path = Some ''a'', form_file = None\<rparr>"

definition req_upload :: "string \<Rightarrow> request" where
  "req_upload dest =
     \<lparr>req_method = ''POST'', url_path = ''/upload'',
      req_headers = [(''Authorization'', ''secret''), (''X-FormFile-Path'', dest)],
      body_path = None, form_file = Some ''hello''\<rparr>"

section \<open>Facts about paths\<close>

text \<open>The model of \<^verbatim>\<open>Clean\<close> on the examples of its documentation and tests.\<close>

lemma Clean_examples:
  "Clean [] = ''.''"
  "Clean ''abc//def//ghi'' = ''abc/def/ghi''"
  "Clean ''abc/./def'' = ''abc/def''"
  "Clean ''abc/def/'' = ''abc/def''"
  "Clean ''abc/def/../ghi/../jkl'' = ''abc/jkl''"
  "Clean ''abc/def/../../..'' = ''..''"
  "Clean ''abc/def/../../../ghi/jkl/../../../mno'' = ''../../mno''"
  "Clean ''../../abc'' = ''../../abc''"
  "Clean ''/../abc'' = ''/abc''"
  "Clean ''/abc/'' = ''/abc''"
  "Clean ''//'' = ''/''"
  by (simp_all add: Clean_def clean_step_def)

lemma Join_Dir_Base_examples:
  "Join [''a'', ''b''] = ''a/b''"
  "Join [''a'', []] = ''a''"
  "Join [[], ''b''] = ''b''"
  "Join [''a/b'', ''../../../xyz''] = ''../xyz''"
  "Dir ''/foo/bar/baz.js'' = ''/foo/bar''"
  "Dir ''dev.txt'' = ''.''"
  "Dir ''/'' = ''/''"
  "Dir [] = ''.''"
  "Base ''/foo/bar/baz.js'' = ''baz.js''"
  "Base ''/foo/bar/baz/'' = ''baz''"
  "Base ''/'' = ''/''"
  "Base [] = ''.''"
  by (simp_all add: Clean_def clean_step_def Dir_def Base_def)

lemma split_slash_not_Nil [simp]: "split_slash s \<noteq> []"
  by (induction s) (auto split: list.splits)

lemma join_slash_Cons: "join_slash (e # es) = (if es = [] then e else e @ CHR ''/'' # join_slash es)"
  by (cases es) auto

lemma join_split: "join_slash (split_slash s) = s"
  by (induction s) (auto simp: join_slash_Cons split: list.splits)

lemma split_slash_free: "e \<in> set (split_slash s) \<Longrightarrow> CHR ''/'' \<notin> set e"
  by (induction s arbitrary: e) (auto split: if_splits list.splits)

lemma split_slash_append: "split_slash (a @ CHR ''/'' # b) = split_slash a @ split_slash b"
proof (induction a)
  case Nil
  then show ?case by simp
next
  case (Cons c a)
  then show ?case by (cases "split_slash a") auto
qed

lemma split_no_slash: "CHR ''/'' \<notin> set e \<Longrightarrow> split_slash e = [e]"
  by (induction e) auto

lemma split_join: "es \<noteq> [] \<Longrightarrow> \<forall>e\<in>set es. CHR ''/'' \<notin> set e \<Longrightarrow> split_slash (join_slash es) = es"
proof (induction es rule: join_slash.induct)
  case 1 then show ?case by simp
next
  case (2 e) then show ?case by (simp add: split_no_slash)
next
  case (3 e v va)
  then show ?case by (simp add: split_slash_append split_no_slash)
qed

lemma clean_plain: "list_all plain_name ns \<Longrightarrow> foldl (clean_step rooted) acc ns = acc @ ns"
  by (induction ns arbitrary: acc) (auto simp: clean_step_def plain_name_def)

lemma walk_plain: "list_all plain_name ns \<Longrightarrow> foldl walk k ns = k @ ns"
  by (induction ns arbitrary: k) (auto simp: walk_def plain_name_def)


lemma path_names_Cons: "path_names (n # ns) = (plain_name n \<and> CHR ''/'' \<notin> set n \<and> path_names ns)"
  by (auto simp: path_names_def)

lemma path_names_append: "path_names (xs @ ys) = (path_names xs \<and> path_names ys)"
  by (auto simp: path_names_def)

lemma path_names_data: "path_names [''data'']"
  by (simp add: path_names_def plain_name_def)

lemma join_slash_snoc: "ds \<noteq> [] \<Longrightarrow> join_slash (ds @ [b]) = join_slash ds @ CHR ''/'' # b"
  by (induction ds rule: join_slash.induct) auto

lemma hd_not_slash: "a \<noteq> [] \<Longrightarrow> CHR ''/'' \<notin> set a \<Longrightarrow> hd a \<noteq> CHR ''/''"
  by (cases a) auto

lemma join_names_hd: "path_names ns \<Longrightarrow> ns \<noteq> [] \<Longrightarrow> join_slash ns \<noteq> [] \<and> hd (join_slash ns) \<noteq> CHR ''/''"
  by (cases ns) (auto simp: path_names_Cons plain_name_def join_slash_Cons hd_append hd_not_slash)

lemma Clean_names:
  assumes "path_names ns" "ns \<noteq> []"
  shows "Clean (join_slash ns) = join_slash ns"
proof -
  have "foldl (clean_step False) [] (split_slash (join_slash ns)) = ns"
    using assms by (simp add: split_join clean_plain path_names_def)
  then show ?thesis
    using join_names_hd [OF assms] by (simp add: Clean_def)
qed

lemma Clean_names_slash:
  assumes "path_names ns" "ns \<noteq> []"
  shows "Clean (join_slash ns @ ''/'') = join_slash ns"
proof -
  have "split_slash (join_slash ns @ ''/'') = ns @ [[]]"
    using assms by (simp add: split_slash_append split_join path_names_def)
  then have "foldl (clean_step False) [] (split_slash (join_slash ns @ ''/'')) = ns"
    using assms by (simp add: clean_plain path_names_def clean_step_def)
  then show ?thesis
    using join_names_hd [OF assms] by (simp add: Clean_def hd_append)
qed

lemma Dir_names:
  assumes "path_names (ds @ [b])"
  shows "Dir (join_slash (ds @ [b])) = (if ds = [] then ''.'' else join_slash ds)"
proof (cases "ds = []")
  case True
  have "dropWhile (\<lambda>c. c \<noteq> CHR ''/'') (rev b) = []"
    using assms by (auto simp: path_names_def)
  then show ?thesis using True by (simp add: Dir_def Clean_def)
next
  case False
  have nb: "\<And>x. x \<in> set (rev b) \<Longrightarrow> x \<noteq> CHR ''/''"
    using assms by (auto simp: path_names_def)
  have "dropWhile (\<lambda>c. c \<noteq> CHR ''/'') (rev b @ CHR ''/'' # rev (join_slash ds)) =
        dropWhile (\<lambda>c. c \<noteq> CHR ''/'') (CHR ''/'' # rev (join_slash ds))"
    using nb by (rule dropWhile_append2)
  then have "dropWhile (\<lambda>c. c \<noteq> CHR ''/'') (rev b @ CHR ''/'' # rev (join_slash ds)) =
        CHR ''/'' # rev (join_slash ds)"
    by simp
  then have "Dir (join_slash (ds @ [b])) = Clean (join_slash ds @ ''/'')"
    using False by (simp add: Dir_def join_slash_snoc)
  then show ?thesis
    using False assms Clean_names_slash [of ds] by (simp add: path_names_append)
qed

lemma Base_names:
  assumes "path_names (ds @ [b])"
  shows "Base (join_slash (ds @ [b])) = b"
proof -
  have b: "b \<noteq> []" "CHR ''/'' \<notin> set b"
    using assms by (auto simp: path_names_def plain_name_def)
  obtain rest where P: "rev (join_slash (ds @ [b])) = rev b @ rest" "rest = [] \<or> hd rest = CHR ''/''"
  proof (cases "ds = []")
    case True
    then show ?thesis using that [of "[]"] by simp
  next
    case False
    then show ?thesis using that [of "CHR ''/'' # rev (join_slash ds)"] by (simp add: join_slash_snoc)
  qed
  have ne: "join_slash (ds @ [b]) \<noteq> []"
    using P(1) b(1) by (metis Nil_is_append_conv rev_is_Nil_conv)
  have hd_ok: "hd (rev b @ rest) \<noteq> CHR ''/''"
    using b by (cases "rev b") auto
  have strip: "dropWhile (\<lambda>c. c = CHR ''/'') (rev b @ rest) = rev b @ rest"
    using hd_ok b(1) by (cases "rev b") auto
  have tw: "takeWhile (\<lambda>c. c \<noteq> CHR ''/'') (rev b @ rest) = rev b"
  proof -
    have "\<And>x. x \<in> set (rev b) \<Longrightarrow> x \<noteq> CHR ''/''" using b(2) by auto
    then have "takeWhile (\<lambda>c. c \<noteq> CHR ''/'') (rev b @ rest) = rev b @ takeWhile (\<lambda>c. c \<noteq> CHR ''/'') rest"
      by (rule takeWhile_append2)
    moreover have "takeWhile (\<lambda>c. c \<noteq> CHR ''/'') rest = []"
      using P(2) by (cases rest) auto
    ultimately show ?thesis by simp
  qed
  show ?thesis
    using ne b(1) by (simp add: Base_def P(1) strip tw Let_def)
qed

lemma Join_data_names:
  assumes "path_names ns"
  shows "Join [''data'', join_slash ns] = join_slash (''data'' # ns)"
proof (cases "ns = []")
  case True
  then show ?thesis by (simp add: Clean_def clean_step_def)
next
  case False
  have "Join [''data'', join_slash ns] = Clean (join_slash (''data'' # ns))"
    using False by (cases ns) auto
  then show ?thesis
    using assms Clean_names [of "''data'' # ns"] path_names_data
    by (simp add: path_names_Cons)
qed

lemma upload_target_names:
  assumes "path_names (ds @ [b])"
  shows "Join [Join [''data'', Dir (join_slash (ds @ [b]))], Base (join_slash (ds @ [b]))] =
         join_slash (''data'' # ds @ [b])"
proof -
  have ds: "path_names ds" using assms by (simp add: path_names_append)
  have full: "Join [''data'', Dir (join_slash (ds @ [b]))] = join_slash (''data'' # ds)"
  proof (cases "ds = []")
    case True
    then have "Dir (join_slash (ds @ [b])) = ''.''"
      using Dir_names [OF assms] by simp
    then show ?thesis using True by (simp add: Clean_def clean_step_def)
  next
    case False
    then show ?thesis using assms ds by (simp add: Dir_names Join_data_names del: Join.simps)
  qed
  have ne: "join_slash (''data'' # ds) \<noteq> []"
    by (simp add: join_slash_Cons)
  have two: "join_slash [join_slash (''data'' # ds), b] = join_slash (''data'' # ds) @ CHR ''/'' # b"
    by simp
  have "Join [join_slash (''data'' # ds), b] = Clean (join_slash ((''data'' # ds) @ [b]))"
    using ne join_slash_snoc [of "''data'' # ds" b] two by (simp del: join_slash.simps)
  moreover have "path_names ((''data'' # ds) @ [b])"
    using assms path_names_data by (simp add: path_names_Cons path_names_append)
  ultimately show ?thesis
    using Clean_names [of "(''data'' # ds) @ [b]"]
    by (simp add: full Base_names [OF assms] del: Join.simps join_slash.simps)
qed

lemma resolve_names:
  assumes "path_names ns" "ns \<noteq> []"
  shows "resolve cw (join_slash ns) = cw @ ns"
  using assms join_names_hd [OF assms]
  by (simp add: resolve_def split_join walk_plain path_names_def)


section \<open>Facts about the file system\<close>

lemmas fs_eval =
  os_Stat_def os_Open_def os_Readdir_def os_RemoveAll_def os_Create_def os_MkdirAll_def
  io_Copy_def Clean_def clean_step_def resolve_def walk_def lookup_def node_at_def put_def
  children_def fileinfo_def Dir_def Base_def endsWithDot_def IsNotExist_def remove_below_def
  env_ok_def store_one_def store_empty_def store_uploaded_def

lemma cwd_put: "cwd (put w k n) = cwd w"
  by (simp add: put_def)

lemma node_at_put: "k \<noteq> [] \<Longrightarrow> node_at (put w k n) k = Some n"
  by (simp add: node_at_def put_def update_conv')

lemma cwd_mkdirs: "mkdirs t ks w = (e, w') \<Longrightarrow> cwd w' = cwd w"
proof (induction ks arbitrary: w)
  case Nil
  then show ?case by simp
next
  case (Cons k ks)
  then show ?case
    by (auto simp: cwd_put split: option.splits node.splits)
qed

lemma cwd_MkdirAll: "os_MkdirAll ev w p = (e, w') \<Longrightarrow> cwd w' = cwd w"
  by (auto simp: os_MkdirAll_def cwd_mkdirs split: if_splits)

lemma Create_ok:
  assumes "os_Create ev w p = Inr w2"
  shows "cwd w2 = cwd w \<and> resolve (cwd w) p \<noteq> []"
  using assms
  by (auto simp: os_Create_def Let_def cwd_put node_at_def split: if_splits option.splits node.splits sum.splits)

lemma Copy_ok:
  assumes "io_Copy ev w2 p C = (None, w3)" "resolve (cwd w2) p \<noteq> []"
  shows "cwd w3 = cwd w2 \<and> node_at w3 (resolve (cwd w2) p) = Some (FileNode C (now ev))"
  using assms
  by (auto simp: io_Copy_def Let_def cwd_put node_at_put split: option.splits)

lemma map_of_remove_below_gone: "prefix k q \<Longrightarrow> map_of (remove_below k fs) q = None"
  by (induction fs) (auto simp: remove_below_def)

lemma map_of_remove_below_kept: "\<not> prefix k q \<Longrightarrow> map_of (remove_below k fs) q = map_of fs q"
  by (induction fs) (auto simp: remove_below_def)

lemma node_at_removed:
  assumes "k \<noteq> []" "prefix k q"
  shows "node_at (w\<lparr>files := remove_below k (files w)\<rparr>) q = None"
proof -
  have "q \<noteq> []" using assms by auto
  then show ?thesis using assms(2) by (simp add: node_at_def map_of_remove_below_gone)
qed

lemma node_at_kept:
  assumes "\<not> prefix k q"
  shows "node_at (w\<lparr>files := remove_below k (files w)\<rparr>) q = node_at w q"
  using assms by (simp add: node_at_def map_of_remove_below_kept)

lemma resolve_data: "resolve cw ''data'' = cw @ [''data'']"
  by (simp add: resolve_def walk_def)

section \<open>Facts about the handlers\<close>

lemma upload_ok_stores:
  assumes "uploadHandler ev r w = (resp, w')" and "status resp = 200"
  shows "\<exists>C. form_file r = Some C \<and> cwd w' = cwd w \<and>
     node_at w'
       (resolve (cwd w)
          (Join [Join [''data'', Dir (Header_Get r ''X-FormFile-Path'')],
                 Base (Header_Get r ''X-FormFile-Path'')])) = Some (FileNode C (now ev))"
proof -
  let ?path = "Header_Get r ''X-FormFile-Path''"
  let ?full = "Join [''data'', Dir ?path]"
  let ?new = "Join [?full, Base ?path]"
  from assms obtain C where C: "form_file r = Some C"
    by (cases "form_file r") (auto simp: uploadHandler_def Let_def sendJSONResponse_def simp del: Join.simps split: if_splits)
  obtain e1 w1 where made:
    "(case os_Stat ev w ?full of
        Inl err \<Rightarrow> (if IsNotExist err then os_MkdirAll ev w ?full else (None, w))
      | Inr info \<Rightarrow> (None, w)) = (e1, w1)"
    by (cases "(case os_Stat ev w ?full of
        Inl err \<Rightarrow> (if IsNotExist err then os_MkdirAll ev w ?full else (None, w))
      | Inr info \<Rightarrow> (None, w))") auto
  have cw1: "cwd w1 = cwd w"
    using made by (auto simp: cwd_MkdirAll simp del: Join.simps split: sum.splits if_splits)
  have ne: "?path \<noteq> []"
    using assms by (auto simp: uploadHandler_def Let_def sendJSONResponse_def simp del: Join.simps split: if_splits)
  have e1: "e1 = None"
    using assms C made ne
    by (auto simp: uploadHandler_def Let_def sendJSONResponse_def simp del: Join.simps split: option.splits)
  obtain w2 where cr: "os_Create ev w1 ?new = Inr w2"
    using assms C made ne e1
    by (cases "os_Create ev w1 ?new") (auto simp: uploadHandler_def Let_def sendJSONResponse_def simp del: Join.simps)
  have cp: "io_Copy ev w2 ?new C = (None, w')"
    using assms C made ne e1 cr
    by (cases "io_Copy ev w2 ?new C")
       (auto simp: uploadHandler_def Let_def sendJSONResponse_def simp del: Join.simps split: option.splits)
  have k: "cwd w2 = cwd w" "resolve (cwd w) ?new \<noteq> []"
    using Create_ok [OF cr] cw1 by auto
  show ?thesis
    using Copy_ok [OF cp] k C by auto
qed

lemma valid_path_names:
  assumes "valid_rel_path P" "no_parent_segments P"
  shows "path_names (split_slash P)"
  using assms split_slash_free [of _ P]
  by (auto simp: valid_rel_path_def no_parent_segments_def path_names_def plain_name_def list_all_iff)

lemma serve_upload_cases:
  assumes "url_path r = ''/upload''" "serve validToken ev r w = (Some resp, w')" "status resp = 200"
  shows "uploadHandler ev r w = (resp, w')"
  using assms
  by (cases "uploadHandler ev r w")
     (auto simp: serve_def TokenMiddleware_def replied_def http_Error_def Let_def split: if_splits)

lemma map_of_filter_other:
  "h \<noteq> a \<Longrightarrow> map_of (filter (\<lambda>(k, v). k \<noteq> a) xs) h = map_of xs h"
  by (induction xs) auto

lemma Header_Get_without:
  "h \<noteq> ''Authorization'' \<Longrightarrow> Header_Get (without_authorization r) h = Header_Get r h"
  by (simp add: Header_Get_def without_authorization_def map_of_filter_other)

lemma Header_Get_cong:
  assumes "without_authorization r = without_authorization r'" and "h \<noteq> ''Authorization''"
  shows "Header_Get r h = Header_Get r' h"
  using Header_Get_without [OF assms(2), of r] Header_Get_without [OF assms(2), of r'] assms(1)
  by simp

lemma req_method_cong:
  assumes "without_authorization r = without_authorization r'"
  shows "req_method r = req_method r'"
proof -
  have "req_method (without_authorization r) = req_method (without_authorization r')"
    using assms by simp
  then show ?thesis by (simp add: without_authorization_def)
qed

lemma url_path_cong:
  assumes "without_authorization r = without_authorization r'"
  shows "url_path r = url_path r'"
proof -
  have "url_path (without_authorization r) = url_path (without_authorization r')"
    using assms by simp
  then show ?thesis by (simp add: without_authorization_def)
qed

lemma plain_request_cong:
  assumes "without_authorization r = without_authorization r'"
  shows "plain_request r = plain_request r'"
  unfolding plain_request_def conditional_headers_def
  by (simp add: req_method_cong [OF assms] Header_Get_cong [OF assms])

lemma ServeContent_cong:
  assumes "without_authorization r = without_authorization r'"
  shows "ServeContent ev r hs n t f = ServeContent ev r' hs n t f"
  unfolding ServeContent_def conditional_headers_def
  by (simp add: plain_request_cong [OF assms] req_method_cong [OF assms]
      Header_Get_cong [OF assms] split: node.splits)

text \<open>
  Every response of the upload handler is written by \<^verbatim>\<open>sendJSONResponse\<close>, so its
  body has the two members \<^verbatim>\<open>message\<close> and \<^verbatim>\<open>status\<close> and no other; the messages
  of the branches differ from one another.
\<close>

lemma body_sendJSONResponse:
  "body (sendJSONResponse code msg) =
     Json (JObject [(''message'', JString msg), (''status'', JInt (if code = 200 then 1 else 0))])"
  by (simp add: sendJSONResponse_def)

lemma upload_response_shape:
  "\<exists>code msg. fst (uploadHandler ev r w) = sendJSONResponse code msg"
  unfolding uploadHandler_def Let_def
  by (auto simp del: Join.simps split: option.split sum.split prod.split)

lemma upload_body_members:
  "\<exists>msg st. body (fst (uploadHandler ev r w)) =
     Json (JObject [(''message'', JString msg), (''status'', JInt st)])"
proof -
  obtain code msg where "fst (uploadHandler ev r w) = sendJSONResponse code msg"
    using upload_response_shape by blast
  then show ?thesis
    by (simp add: body_sendJSONResponse)
qed

lemma upload_messages_distinct:
  "distinct [msg_missing_store_path, msg_receive_failed, msg_mkdir_failed,
             msg_create_failed, msg_copy_failed, msg_upload_ok]"
  by (simp add: msg_missing_store_path_def msg_receive_failed_def msg_mkdir_failed_def
      msg_create_failed_def msg_copy_failed_def msg_upload_ok_def)

text \<open>
  A directory that \<^verbatim>\<open>Readdir\<close> finds empty is listed with the nil slice, whatever
  the path.
\<close>

lemma list_empty_directory:
  assumes "body_path r = Some p" and "os_Stat ev w (list_fullPath p) = Inr info"
    and "os_Open ev w (list_fullPath p) = Inr dir"
    and "os_Readdir ev w (list_fullPath p) = Inr []"
  shows "listHandler ev r w =
     (\<lparr>status = 200, headers = [(''Content-Type'', ''application/json'')],
       body = Json (JObject [(''status'', JInt 1), (''message'', JString ''success''),
                             (''content'', JNull)])\<rparr>, w)"
  using assms
  by (simp add: listHandler_def listDirectory_def sendListResponse_def encode_ListResponse_def
      Let_def)

section \<open>Upload and list responses\<close>

text \<open>
  Claim C1. The scenario of the specification: an upload of \<^verbatim>\<open>hello\<close> with the
  header \<^verbatim>\<open>X-FormFile-Path: /a/b.txt\<close> and a valid token, on the empty store. The
  upload succeeds with status 200 and stores the file, and the body of the response
  is the object that \<^verbatim>\<open>sendJSONResponse\<close> writes for every success: the members
  \<^verbatim>\<open>message\<close> and \<^verbatim>\<open>status\<close>, and no member \<^verbatim>\<open>filePath\<close>.
\<close>

theorem upload_success_body:
  "serve ''secret'' env_ok (req_upload ''/a/b.txt'') store_empty =
     (Some \<lparr>status = 200, headers = [(''Content-Type'', ''application/json'')],
            body = Json (JObject [(''message'', JString msg_upload_ok), (''status'', JInt 1)])\<rparr>,
      store_uploaded)"
  by (simp add: serve_def TokenMiddleware_def replied_def uploadHandler_def req_upload_def
      Header_Get_def sendJSONResponse_def fs_eval)

text \<open>
  Claim C2. The scenario of the specification: a list request with the body \<^verbatim>\<open>{}\<close>
  and a valid token, on the empty store. \<^verbatim>\<open>listDirectory\<close> starts from the nil slice
  and appends nothing, so the member \<^verbatim>\<open>content\<close> of the response is \<^verbatim>\<open>null\<close>, not
  the empty array that the failure branches of \<^verbatim>\<open>listHandler\<close> send.
\<close>

theorem list_empty_root_body:
  "serve ''secret'' env_ok (req_post ''/list'' ''secret'' (Some [])) store_empty =
     (Some \<lparr>status = 200, headers = [(''Content-Type'', ''application/json'')],
            body = Json (JObject [(''status'', JInt 1), (''message'', JString ''success''),
                                  (''content'', JNull)])\<rparr>,
      store_empty)"
  by (simp add: serve_def TokenMiddleware_def replied_def listHandler_def listDirectory_def
      list_fullPath_def req_post_def Header_Get_def sendListResponse_def
      encode_ListResponse_def fs_eval)

section \<open>The token check\<close>

text \<open>
  Claim C3, as amended. A request whose \<^verbatim>\<open>Authorization\<close> value (the empty string
  when the header is absent) differs from the configured token is answered 401 by the
  token check, whatever handler it wraps, and the store is left as it was; so it is
  for every such request to \<^verbatim>\<open>/list\<close>, \<^verbatim>\<open>/upload\<close> and \<^verbatim>\<open>/delete\<close>.
\<close>

theorem token_mismatch_rejected:
  assumes "Header_Get r ''Authorization'' \<noteq> validToken"
  shows "TokenMiddleware nextHandler validToken ev r w = (http_Error ''Invalid token'' 401, w) \<and>
         status (http_Error ''Invalid token'' 401) = 401 \<and>
         (url_path r = ''/list'' \<or> url_path r = ''/upload'' \<or> url_path r = ''/delete'' \<longrightarrow>
            serve validToken ev r w = (Some (http_Error ''Invalid token'' 401), w))"
  using assms by (auto simp add: TokenMiddleware_def serve_def replied_def http_Error_def)

theorem token_mismatch_rejected_witness:
  "Header_Get req_anon_delete ''Authorization'' \<noteq> ''secret'' \<and>
   url_path req_anon_delete = ''/delete'' \<and>
   serve ''secret'' env_ok req_anon_delete store_one =
     (Some \<lparr>status = 401,
            headers = [(''Content-Type'', ''text/plain; charset=utf-8''),
                       (''X-Content-Type-Options'', ''nosniff'')],
            body = Text (''Invalid token'' @ [CHR 0x0A])\<rparr>,
      store_one)"
  using token_mismatch_rejected [of req_anon_delete "''secret''" deleteHandler env_ok store_one]
  by (simp add: req_anon_delete_def Header_Get_def http_Error_def)

text \<open>
  Claim C3 as stated fails when the configured token is empty: a delete request that
  carries no \<^verbatim>\<open>Authorization\<close> header is then not answered 401 but served, and the
  store changes.
\<close>

theorem absent_header_counterexample:
  "map_of (req_headers req_anon_delete) ''Authorization'' = None \<and>
   serve [] env_ok req_anon_delete store_one =
     (Some \<lparr>status = 200, headers = [(''Content-Type'', ''application/json'')],
            body = Json (JObject [(''status'', JInt 1), (''message'', JString msg_delete_ok)])\<rparr>,
      store_empty) \<and>
   store_empty \<noteq> store_one"
  by (simp add: serve_def TokenMiddleware_def replied_def Header_Get_def deleteHandler_def
      req_anon_delete_def delete_fullPath_def sendDeleteResponse_def
      encode_DeleteResponse_def fs_eval)

text \<open>
  Claim C9. The token check calls the wrapped handler exactly when the value of the
  \<^verbatim>\<open>Authorization\<close> header equals the configured token, whatever the wrapped handler
  is; otherwise it answers 401 itself and leaves the store alone. A request without
  that header has the empty string as its value, so under an empty configured token
  it passes the check on \<^verbatim>\<open>/list\<close>, \<^verbatim>\<open>/upload\<close> and \<^verbatim>\<open>/delete\<close> and gets the
  answer of the handler behind it.
\<close>

theorem token_gate_exact:
  "TokenMiddleware nextHandler validToken ev r w =
     (if Header_Get r ''Authorization'' = validToken then nextHandler ev r w
      else (http_Error ''Invalid token'' 401, w)) \<and>
   (map_of (req_headers r) ''Authorization'' = None \<longrightarrow>
      (url_path r = ''/list'' \<longrightarrow> serve [] ev r w = replied (listHandler ev r w)) \<and>
      (url_path r = ''/upload'' \<longrightarrow> serve [] ev r w = replied (uploadHandler ev r w)) \<and>
      (url_path r = ''/delete'' \<longrightarrow> serve [] ev r w = replied (deleteHandler ev r w)))"
  by (simp add: TokenMiddleware_def serve_def Header_Get_def)

theorem token_gate_exact_witness:
  "map_of (req_headers req_anon_delete) ''Authorization'' = None \<and>
   url_path req_anon_delete = ''/delete'' \<and>
   serve [] env_ok req_anon_delete store_one =
     replied (deleteHandler env_ok req_anon_delete store_one) \<and>
   TokenMiddleware deleteHandler ''secret'' env_ok req_anon_delete store_one =
     (http_Error ''Invalid token'' 401, store_one)"
  using token_gate_exact [of deleteHandler "''secret''" env_ok req_anon_delete store_one]
    token_gate_exact [of deleteHandler "[]" env_ok req_anon_delete store_one]
  by (simp add: req_anon_delete_def Header_Get_def)

section \<open>Download\<close>

text \<open>
  Claim C4. No token is checked on \<^verbatim>\<open>/get/\<close>: two requests below \<^verbatim>\<open>/get/\<close> that
  differ at most in the \<^verbatim>\<open>Authorization\<close> header (in its value, or in having it at
  all) get the same response, status, headers and body, and this whatever the
  configured token is.
\<close>

theorem download_ignores_authorization:
  assumes "take (length ''/get/'') (url_path r) = ''/get/''"
    and "without_authorization r = without_authorization r'"
  shows "serve validToken ev r w = serve validToken' ev r' w"
proof -
  have u: "url_path r' = url_path r" using url_path_cong [OF assms(2)] by simp
  have "getFileHandler ev r w = getFileHandler ev r' w"
    unfolding getFileHandler_def u
    by (simp add: ServeContent_cong [OF assms(2)] Let_def split: sum.splits)
  then show ?thesis using assms(1) by (simp add: serve_def u)
qed

theorem download_ignores_authorization_witness:
  "take (length ''/get/'') (url_path (req_get ''a/b.txt'')) = ''/get/'' \<and>
   without_authorization (req_get ''a/b.txt'') =
     without_authorization
       ((req_get ''a/b.txt'')\<lparr>req_headers := [(''Authorization'', ''wrong'')]\<rparr>) \<and>
   serve ''secret'' env_ok (req_get ''a/b.txt'') store_one =
     serve ''other'' env_ok
       ((req_get ''a/b.txt'')\<lparr>req_headers := [(''Authorization'', ''wrong'')]\<rparr>) store_one"
proof -
  have s: "without_authorization (req_get ''a/b.txt'') =
     without_authorization
       ((req_get ''a/b.txt'')\<lparr>req_headers := [(''Authorization'', ''wrong'')]\<rparr>)"
    by (simp add: without_authorization_def req_get_def)
  have t: "take (length ''/get/'') (url_path (req_get ''a/b.txt'')) = ''/get/''"
    by (simp add: req_get_def)
  show ?thesis
    using s t download_ignores_authorization [OF t s] by simp
qed

text \<open>
  Claim C6. The download handler looks the resolved path up with \<^verbatim>\<open>Stat\<close> and
  branches on the result: a not-exist error gives the 404 error envelope, any other
  error the 500 error envelope, a directory the 404 error envelope; otherwise the
  file is opened, which gives the 500 error envelope when it fails and else the
  content, served by \<^verbatim>\<open>ServeContent\<close> as an attachment.
\<close>

theorem download_branches:
  assumes "length ''/get/'' \<le> length (url_path r)"
  shows
    "(os_Stat ev w (get_fullPath (url_path r)) = Inl err \<and> IsNotExist err \<longrightarrow>
        getFileHandler ev r w = Some (error_envelope 404 msg_not_found)) \<and>
     (os_Stat ev w (get_fullPath (url_path r)) = Inl err \<and> \<not> IsNotExist err \<longrightarrow>
        getFileHandler ev r w = Some (error_envelope 500 msg_server_error)) \<and>
     (os_Stat ev w (get_fullPath (url_path r)) = Inr fileInfo \<and> fi_is_dir fileInfo \<longrightarrow>
        getFileHandler ev r w = Some (error_envelope 404 msg_not_found)) \<and>
     (os_Stat ev w (get_fullPath (url_path r)) = Inr fileInfo \<and> \<not> fi_is_dir fileInfo \<and>
      os_Open ev w (get_fullPath (url_path r)) = Inl err' \<longrightarrow>
        getFileHandler ev r w = Some (error_envelope 500 msg_server_error)) \<and>
     (os_Stat ev w (get_fullPath (url_path r)) = Inr fileInfo \<and> \<not> fi_is_dir fileInfo \<and>
      os_Open ev w (get_fullPath (url_path r)) = Inr file \<longrightarrow>
        getFileHandler ev r w =
          Some (ServeContent ev r
                  [(''Content-Type'', ''application/octet-stream''),
                   (''Content-Disposition'', ''attachment; filename='' @ fi_name fileInfo)]
                  (fi_name fileInfo) (fi_mod_time fileInfo) file))"
  using assms
  by (simp add: getFileHandler_def sendJSONResponse_def error_envelope_def Let_def)

theorem download_branches_witness:
  "os_Stat env_ok store_one (get_fullPath (url_path (req_get ''zz''))) = Inl ENOENT \<and>
   getFileHandler env_ok (req_get ''zz'') store_one =
     Some (error_envelope 404 msg_not_found) \<and>
   os_Stat env_ok store_one (get_fullPath (url_path (req_get ''a/b.txt/c''))) = Inl ENOTDIR \<and>
   getFileHandler env_ok (req_get ''a/b.txt/c'') store_one =
     Some (error_envelope 500 msg_server_error) \<and>
   os_Stat env_ok store_one (get_fullPath (url_path (req_get ''a''))) =
     Inr \<lparr>fi_name = ''a'', fi_is_dir = True, fi_mod_time = 3\<rparr> \<and>
   getFileHandler env_ok (req_get ''a'') store_one =
     Some (error_envelope 404 msg_not_found) \<and>
   getFileHandler (env_ok\<lparr>open_fault := (\<lambda>p. True)\<rparr>) (req_get ''a/b.txt'') store_one =
     Some (error_envelope 500 msg_server_error) \<and>
   os_Stat env_ok store_one (get_fullPath (url_path (req_get ''a/b.txt''))) =
     Inr \<lparr>fi_name = ''b.txt'', fi_is_dir = False, fi_mod_time = 4\<rparr> \<and>
   getFileHandler env_ok (req_get ''a/b.txt'') store_one =
     Some \<lparr>status = 200,
           headers = [(''Content-Type'', ''application/octet-stream''),
                      (''Content-Disposition'', ''attachment; filename=b.txt'')],
           body = Raw ''hello''\<rparr>"
  using download_branches [of "req_get ''zz''" env_ok store_one ENOENT]
    download_branches [of "req_get ''a/b.txt/c''" env_ok store_one ENOTDIR]
    download_branches [of "req_get ''a''" env_ok store_one _
       "\<lparr>fi_name = ''a'', fi_is_dir = True, fi_mod_time = 3\<rparr>"]
    download_branches [of "req_get ''a/b.txt''" "env_ok\<lparr>open_fault := (\<lambda>p. True)\<rparr>" store_one _
       "\<lparr>fi_name = ''b.txt'', fi_is_dir = False, fi_mod_time = 4\<rparr>" EACCES]
    download_branches [of "req_get ''a/b.txt''" env_ok store_one _
       "\<lparr>fi_name = ''b.txt'', fi_is_dir = False, fi_mod_time = 4\<rparr>" _ "FileNode ''hello'' 4"]
  by (simp add: req_get_def get_fullPath_def fs_eval ServeContent_def plain_request_def
      conditional_headers_def Header_Get_def)

section \<open>Upload followed by download\<close>

text \<open>
  Claim C5. Let \<open>P\<close> be a valid relative path without parent-traversal segments and
  \<open>C\<close> any content. If the upload of \<open>C\<close> with the destination \<open>P\<close> is answered
  with status 200, then a download of \<^verbatim>\<open>/get/P\<close> from the store it leaves, by a
  request without range or condition and meeting no failure from outside, is answered
  with status 200 and exactly the bytes \<open>C\<close>. For such \<open>P\<close> the URL path
  \<^verbatim>\<open>/get/P\<close> is in canonical form, so the request reaches the handler as it is.
\<close>

theorem upload_then_download_roundtrip:
  assumes "valid_rel_path P" and "no_parent_segments P"
    and "url_path ru = ''/upload''" and "Header_Get ru ''X-FormFile-Path'' = P"
    and "form_file ru = Some C"
    and "serve validToken ev ru w = (Some resp, w')" and "status resp = 200"
    and "url_path rd = ''/get/'' @ P" and "plain_request rd"
    and "\<not> stat_fault ev' (''data/'' @ P)" and "\<not> open_fault ev' (''data/'' @ P)"
  shows "serve validToken ev' rd w' =
           (Some \<lparr>status = 200,
                  headers = [(''Content-Type'', ''application/octet-stream''),
                             (''Content-Disposition'', ''attachment; filename='' @ Base P)],
                  body = Raw C\<rparr>, w')"
proof -
  have names: "path_names (split_slash P)"
    using assms(1,2) by (rule valid_path_names)
  obtain ds b where nsb: "split_slash P = ds @ [b]"
    using split_slash_not_Nil [of P] by (cases "split_slash P" rule: rev_cases) auto
  have P: "P = join_slash (ds @ [b])"
    using join_split [of P] nsb by simp
  have pn: "path_names (ds @ [b])" using names nsb by simp
  have pnd: "path_names (''data'' # ds @ [b])"
    using pn path_names_data by (simp add: path_names_Cons path_names_append)
  let ?full = "join_slash (''data'' # ds @ [b])"
  have full_eq: "?full = ''data/'' @ P"
    using P by (cases "ds @ [b]") auto
  have target: "Join [Join [''data'', Dir P], Base P] = ?full"
    using upload_target_names [OF pn] P by simp
  have getp: "get_fullPath (url_path rd) = ?full"
    using Join_data_names [OF pn] P assms(8) by (simp add: get_fullPath_def del: Join.simps)
  have res: "resolve (cwd w) ?full = cwd w @ ''data'' # ds @ [b]"
    using resolve_names [OF pnd] by simp
  have baseP: "Base P = b" using Base_names [OF pn] P by simp
  have basef: "Base ?full = b"
    using Base_names [of "''data'' # ds" b] pnd by simp
  have up: "uploadHandler ev ru w = (resp, w')"
    using assms(3,6,7) by (rule serve_upload_cases)
  from upload_ok_stores [OF up assms(7)] assms(4,5) target res
  have stored: "cwd w' = cwd w"
      "node_at w' (cwd w @ ''data'' # ds @ [b]) = Some (FileNode C (now ev))"
    by auto
  have lk: "lookup w' (resolve (cwd w') ?full) = Inr (FileNode C (now ev))"
    using stored res by (simp add: lookup_def)
  have nf: "\<not> stat_fault ev' ?full" "\<not> open_fault ev' ?full"
    using assms(10,11) full_eq by auto
  have st: "os_Stat ev' w' ?full = Inr \<lparr>fi_name = b, fi_is_dir = False, fi_mod_time = now ev\<rparr>"
    using nf(1) lk basef by (simp add: os_Stat_def fileinfo_def)
  have op: "os_Open ev' w' ?full = Inr (FileNode C (now ev))"
    using nf(2) lk by (simp add: os_Open_def)
  have len: "\<not> length (url_path rd) < length ''/get/''"
    using assms(8) by simp
  have "getFileHandler ev' rd w' =
     Some \<lparr>status = 200,
           headers = [(''Content-Type'', ''application/octet-stream''),
                      (''Content-Disposition'', ''attachment; filename='' @ b)],
           body = Raw C\<rparr>"
    unfolding getFileHandler_def Let_def getp
    using len assms(9) by (simp add: st op ServeContent_def)
  then show ?thesis
    using assms(8) baseP by (simp add: serve_def)
qed

theorem upload_then_download_roundtrip_witness:
  "valid_rel_path ''a/b.txt'' \<and> no_parent_segments ''a/b.txt'' \<and>
   serve ''secret'' env_ok (req_upload ''a/b.txt'') store_empty =
     (Some (sendJSONResponse 200 msg_upload_ok), store_uploaded) \<and>
   plain_request (req_get ''a/b.txt'') \<and>
   \<not> stat_fault env_ok ''data/a/b.txt'' \<and> \<not> open_fault env_ok ''data/a/b.txt'' \<and>
   serve ''secret'' env_ok (req_get ''a/b.txt'') store_uploaded =
     (Some \<lparr>status = 200,
            headers = [(''Content-Type'', ''application/octet-stream''),
                       (''Content-Disposition'', ''attachment; filename=b.txt'')],
            body = Raw ''hello''\<rparr>,
      store_uploaded)"
proof -
  have up: "serve ''secret'' env_ok (req_upload ''a/b.txt'') store_empty =
     (Some (sendJSONResponse 200 msg_upload_ok), store_uploaded)"
    by (simp add: serve_def TokenMiddleware_def replied_def uploadHandler_def req_upload_def
        Header_Get_def fs_eval)
  have v: "valid_rel_path ''a/b.txt''" "no_parent_segments ''a/b.txt''"
    by (simp_all add: valid_rel_path_def no_parent_segments_def)
  have pl: "plain_request (req_get ''a/b.txt'')"
    by (simp add: plain_request_def req_get_def conditional_headers_def Header_Get_def)
  have nf: "\<not> stat_fault env_ok ''data/a/b.txt''" "\<not> open_fault env_ok ''data/a/b.txt''"
    by (simp_all add: env_ok_def)
  have "serve ''secret'' env_ok (req_get ''a/b.txt'') store_uploaded =
     (Some \<lparr>status = 200,
            headers = [(''Content-Type'', ''application/octet-stream''),
                       (''Content-Disposition'', ''attachment; filename='' @ Base ''a/b.txt'')],
            body = Raw ''hello''\<rparr>,
      store_uploaded)"
    by (rule upload_then_download_roundtrip [OF v _ _ _ up _ _ pl, of "''hello''" env_ok])
       (simp_all add: req_upload_def req_get_def Header_Get_def sendJSONResponse_def env_ok_def)
  then show ?thesis
    using up v pl nf by (simp add: Base_def)
qed

text \<open>
  The last element of the path must not be empty. For the destination \<^verbatim>\<open>a/\<close> the
  handler takes \<^verbatim>\<open>a\<close> both as the directory and as the base name: the upload
  succeeds and stores \<^verbatim>\<open>data/a/a\<close>, and the download of \<^verbatim>\<open>/get/a/\<close> finds the
  directory \<^verbatim>\<open>data/a\<close>.
\<close>

lemma trailing_slash_destination:
  "\<not> valid_rel_path ''a/''"
  "serve ''secret'' env_ok (req_upload ''a/'') store_empty =
     (Some (sendJSONResponse 200 msg_upload_ok),
      \<lparr>files = [([''srv''], DirNode 1), ([''srv'', ''data''], DirNode 2),
                ([''srv'', ''data'', ''a''], DirNode 7),
                ([''srv'', ''data'', ''a'', ''a''], FileNode ''hello'' 7)],
       cwd = [''srv'']\<rparr>)"
  "serve ''secret'' env_ok (req_get ''a/'')
       \<lparr>files = [([''srv''], DirNode 1), ([''srv'', ''data''], DirNode 2),
                 ([''srv'', ''data'', ''a''], DirNode 7),
                 ([''srv'', ''data'', ''a'', ''a''], FileNode ''hello'' 7)],
        cwd = [''srv'']\<rparr> =
     (Some (error_envelope 404 msg_not_found),
      \<lparr>files = [([''srv''], DirNode 1), ([''srv'', ''data''], DirNode 2),
                ([''srv'', ''data'', ''a''], DirNode 7),
                ([''srv'', ''data'', ''a'', ''a''], FileNode ''hello'' 7)],
       cwd = [''srv'']\<rparr>)"
  by (simp_all add: valid_rel_path_def serve_def TokenMiddleware_def replied_def
      uploadHandler_def getFileHandler_def get_fullPath_def req_upload_def req_get_def
      Header_Get_def sendJSONResponse_def error_envelope_def fs_eval)

section \<open>Absent targets\<close>

text \<open>
  Claim C7. When \<^verbatim>\<open>Stat\<close> reports that the target of a list or delete request does
  not exist, the response has HTTP status 200 and the status member 0 with a message
  that it does not exist; for the list request the content is the empty array. The
  store is left as it was.
\<close>

theorem absent_target_is_benign:
  assumes "body_path r = Some p"
  shows
    "(os_Stat ev w (list_fullPath p) = Inl err \<and> IsNotExist err \<longrightarrow>
        listHandler ev r w =
          (\<lparr>status = 200, headers = [(''Content-Type'', ''application/json'')],
            body = Json (JObject [(''status'', JInt 0), (''message'', JString msg_dir_not_exist),
                                  (''content'', JArray [])])\<rparr>, w)) \<and>
     (p \<noteq> [] \<and> os_Stat ev w (delete_fullPath p) = Inl err \<and> IsNotExist err \<longrightarrow>
        deleteHandler ev r w =
          (\<lparr>status = 200, headers = [(''Content-Type'', ''application/json'')],
            body = Json (JObject [(''status'', JInt 0), (''message'', JString msg_path_not_exist)])\<rparr>,
           w))"
  using assms
  by (simp add: listHandler_def deleteHandler_def sendListResponse_def sendDeleteResponse_def
      encode_ListResponse_def encode_DeleteResponse_def Let_def)

theorem absent_target_is_benign_witness:
  "body_path (req_post ''/list'' ''secret'' (Some ''zz'')) = Some ''zz'' \<and>
   os_Stat env_ok store_one (list_fullPath ''zz'') = Inl ENOENT \<and>
   os_Stat env_ok store_one (delete_fullPath ''zz'') = Inl ENOENT \<and>
   IsNotExist ENOENT \<and>
   listHandler env_ok (req_post ''/list'' ''secret'' (Some ''zz'')) store_one =
     (\<lparr>status = 200, headers = [(''Content-Type'', ''application/json'')],
       body = Json (JObject [(''status'', JInt 0), (''message'', JString msg_dir_not_exist),
                             (''content'', JArray [])])\<rparr>, store_one) \<and>
   deleteHandler env_ok (req_post ''/delete'' ''secret'' (Some ''zz'')) store_one =
     (\<lparr>status = 200, headers = [(''Content-Type'', ''application/json'')],
       body = Json (JObject [(''status'', JInt 0), (''message'', JString msg_path_not_exist)])\<rparr>,
      store_one)"
  using absent_target_is_benign [of "req_post ''/list'' ''secret'' (Some ''zz'')" "''zz''" env_ok store_one ENOENT]
    absent_target_is_benign [of "req_post ''/delete'' ''secret'' (Some ''zz'')" "''zz''" env_ok store_one ENOENT]
  by (simp add: req_post_def list_fullPath_def delete_fullPath_def fs_eval)

section \<open>The path resolver\<close>

text \<open>
  Claim C8. Each handler resolves the path of the client by a lexical join onto
  \<^verbatim>\<open>data\<close>, which is \<^verbatim>\<open>Clean\<close> of the two joined by a slash: the empty string
  gives \<^verbatim>\<open>data\<close> itself (for the list and download handlers; the delete handler
  answers an empty path before resolving), any other string its join, and there is no
  string for which the resolver fails. Elements \<^verbatim>\<open>..\<close> are resolved lexically: the
  path \<^verbatim>\<open>../\<close> followed by a canonical relative path resolves to that path, which
  lies outside the storage root unless it starts with \<^verbatim>\<open>data\<close>.
\<close>

theorem resolver_is_lexical_join:
  "list_fullPath [] = ''data'' \<and> get_fullPath ''/get/'' = ''data'' \<and>
   (p \<noteq> [] \<longrightarrow> list_fullPath p = Join [''data'', p]) \<and>
   delete_fullPath p = Join [''data'', p] \<and>
   get_fullPath (''/get/'' @ p) = Join [''data'', p] \<and>
   Join [''data'', p] = Clean (''data/'' @ p) \<and>
   (path_names ns \<and> ns \<noteq> [] \<longrightarrow>
      Join [''data'', ''../'' @ join_slash ns] = join_slash ns \<and>
      resolve cw (join_slash ns) = cw @ ns \<and>
      (hd ns \<noteq> ''data'' \<longrightarrow> \<not> prefix (cw @ [''data'']) (resolve cw (join_slash ns))))"
proof -
  have esc: "Join [''data'', ''../'' @ join_slash ns] = join_slash ns"
    if ns: "path_names ns" "ns \<noteq> []"
  proof -
    have j: "''data/../'' @ join_slash ns = join_slash (''data'' # ''..'' # ns)"
      using ns(2) by (cases ns) auto
    have "split_slash (join_slash (''data'' # ''..'' # ns)) = ''data'' # ''..'' # ns"
      using ns by (intro split_join) (auto simp: path_names_def)
    then have "foldl (clean_step False) [] (split_slash (''data/../'' @ join_slash ns)) = ns"
      using ns(1) by (simp only: j) (simp add: clean_step_def clean_plain path_names_def)
    then have "Clean (''data/../'' @ join_slash ns) = join_slash ns"
      using join_names_hd [OF ns] by (simp add: Clean_def)
    then show ?thesis by simp
  qed
  have out: "\<not> prefix (cw @ [''data'']) (cw @ ns)" if "ns \<noteq> []" "hd ns \<noteq> ''data''"
    using that by (cases ns) auto
  show ?thesis
    using esc resolve_names [of ns cw] out
    by (simp add: list_fullPath_def get_fullPath_def delete_fullPath_def Clean_def clean_step_def)
qed

theorem resolver_is_lexical_join_witness:
  "path_names [''etc'', ''passwd''] \<and>
   list_fullPath ''../etc/passwd'' = ''etc/passwd'' \<and>
   delete_fullPath ''../etc/passwd'' = ''etc/passwd'' \<and>
   get_fullPath ''/get/../etc/passwd'' = ''etc/passwd'' \<and>
   resolve [''srv''] ''etc/passwd'' = [''srv'', ''etc'', ''passwd''] \<and>
   \<not> prefix [''srv'', ''data''] (resolve [''srv''] ''etc/passwd'') \<and>
   delete_fullPath ''../../etc/passwd'' = Clean ''data/../../etc/passwd'' \<and>
   Clean ''data/../../etc/passwd'' = ''../etc/passwd'' \<and>
   resolve [''srv''] ''../etc/passwd'' = [''etc'', ''passwd'']"
  using resolver_is_lexical_join [of "''../etc/passwd''" "[''etc'', ''passwd'']" "[''srv'']"]
    resolver_is_lexical_join [of "''../../etc/passwd''" "[''etc'', ''passwd'']" "[''srv'']"]
  by (simp add: path_names_def plain_name_def Clean_def clean_step_def resolve_def walk_def)

section \<open>Deleting the storage root\<close>

text \<open>
  Claim C10. A delete request whose non-empty path resolves lexically to \<^verbatim>\<open>data\<close>,
  as \<^verbatim>\<open>/\<close>, \<^verbatim>\<open>.\<close>, \<^verbatim>\<open>//\<close> and \<^verbatim>\<open>x/..\<close> do, removes the storage root itself:
  when \<^verbatim>\<open>Stat\<close> finds the root and the removal meets no failure from outside, the
  response has HTTP status 200 and the status member 1, and afterwards no node is left
  at or below the storage root, while every other node is as before.
\<close>

theorem delete_root_removes_store:
  assumes "body_path r = Some p" and "p \<noteq> []" and "delete_fullPath p = ''data''"
    and "os_Stat ev w ''data'' = Inr info" and "\<not> remove_fault ev ''data''"
  shows
    "fst (deleteHandler ev r w) =
       \<lparr>status = 200, headers = [(''Content-Type'', ''application/json'')],
        body = Json (JObject [(''status'', JInt 1), (''message'', JString msg_delete_ok)])\<rparr> \<and>
     (\<forall>k. prefix (cwd w @ [''data'']) k \<longrightarrow> node_at (snd (deleteHandler ev r w)) k = None) \<and>
     (\<forall>k. \<not> prefix (cwd w @ [''data'']) k \<longrightarrow>
          node_at (snd (deleteHandler ev r w)) k = node_at w k) \<and>
     delete_fullPath ''/'' = ''data'' \<and> delete_fullPath ''.'' = ''data'' \<and>
     delete_fullPath ''//'' = ''data'' \<and> delete_fullPath ''x/..'' = ''data''"
proof -
  let ?w' = "w\<lparr>files := remove_below (cwd w @ [''data'']) (files w)\<rparr>"
  have rm: "os_RemoveAll ev w ''data'' = (None, ?w')"
    using assms(5) by (simp add: os_RemoveAll_def endsWithDot_def resolve_data Let_def)
  have h: "deleteHandler ev r w =
      (sendDeleteResponse 200 \<lparr>DelStatus = 1, DelMessage = msg_delete_ok\<rparr>, ?w')"
    using assms(1-4) rm by (simp add: deleteHandler_def Let_def)
  have ex: "delete_fullPath ''/'' = ''data'' \<and> delete_fullPath ''.'' = ''data'' \<and>
     delete_fullPath ''//'' = ''data'' \<and> delete_fullPath ''x/..'' = ''data''"
    by (simp add: delete_fullPath_def Clean_def clean_step_def)
  show ?thesis
    using ex by (simp add: h sendDeleteResponse_def encode_DeleteResponse_def node_at_removed node_at_kept)
qed

theorem delete_root_removes_store_witness:
  "body_path (req_post ''/delete'' ''secret'' (Some ''x/..'')) = Some ''x/..'' \<and>
   delete_fullPath ''x/..'' = ''data'' \<and>
   os_Stat env_ok store_one ''data'' = Inr \<lparr>fi_name = ''data'', fi_is_dir = True, fi_mod_time = 2\<rparr> \<and>
   \<not> remove_fault env_ok ''data'' \<and>
   deleteHandler env_ok (req_post ''/delete'' ''secret'' (Some ''x/..'')) store_one =
     (\<lparr>status = 200, headers = [(''Content-Type'', ''application/json'')],
        body = Json (JObject [(''status'', JInt 1), (''message'', JString msg_delete_ok)])\<rparr>,
      \<lparr>files = [([''srv''], DirNode 1)], cwd = [''srv'']\<rparr>) \<and>
   node_at (snd (deleteHandler env_ok (req_post ''/delete'' ''secret'' (Some ''x/..'')) store_one))
     [''srv'', ''data'', ''a'', ''b.txt''] = None"
  using delete_root_removes_store [of "req_post ''/delete'' ''secret'' (Some ''x/..'')" "''x/..''" env_ok store_one
     "\<lparr>fi_name = ''data'', fi_is_dir = True, fi_mod_time = 2\<rparr>"]
  by (simp add: req_post_def delete_fullPath_def deleteHandler_def sendDeleteResponse_def encode_DeleteResponse_def fs_eval)

end
